theory Spec2Isabelle
  imports Main "HOL-Library.AList"
begin

text \<open>
  The workflow execution engine of \<^verbatim>\<open>server/services/workflow-engine.ts\<close>: template
  interpolation, the node handlers and their dispatch, the recursive traversal of the
  graph, and the life of the execution record in the in-memory storage.
\<close>

section \<open>JavaScript values\<close>

text \<open>
  The engine handles untyped JSON-like data (\<^verbatim>\<open>any\<close>, \<^verbatim>\<open>Record<string, any>\<close>).
  Values are trees. The engine does no arithmetic, so a number is either an integer
  (\<open>JNum\<close>) or a non-integer, non-NaN number held as the text \<^verbatim>\<open>String\<close> prints for it
  (\<open>JFloat\<close>, as in the default \<^verbatim>\<open>0.7\<close>); the exponent notation of very large integers
  is outside the model. Objects are association lists in insertion order (the sorting
  of integer-like keys to the front is not modelled) holding own properties only
  (nothing is inherited from \<^verbatim>\<open>Object.prototype\<close>), and a value stored twice is a copy
  (no aliasing between a handler's result and the live context object).
\<close>

datatype jsval =
    JUndefined
  | JNull
  | JBool bool
  | JNum int
  | JFloat string
  | JStr string
  | JArr "jsval list"
  | JObj "(string \<times> jsval) list"

type_synonym obj = "(string \<times> jsval) list"

text \<open>Truthiness, as \<^verbatim>\<open>if (x)\<close>, \<^verbatim>\<open>!x\<close> and \<^verbatim>\<open>x || y\<close> test it.\<close>

fun truthy :: "jsval \<Rightarrow> bool" where
  "truthy JUndefined = False"
| "truthy JNull = False"
| "truthy (JBool b) = b"
| "truthy (JNum n) = (n \<noteq> 0)"
| "truthy (JFloat s) = True"
| "truthy (JStr s) = (s \<noteq> [])"
| "truthy (JArr xs) = True"
| "truthy (JObj kvs) = True"

text \<open>\<^verbatim>\<open>a || b\<close>\<close>

definition jsOr :: "jsval \<Rightarrow> jsval \<Rightarrow> jsval" where
  "jsOr a b = (if truthy a then a else b)"

text \<open>\<^verbatim>\<open>o[key]\<close> on an object: the value, or \<^verbatim>\<open>undefined\<close> for a missing key.\<close>

definition getProp :: "obj \<Rightarrow> string \<Rightarrow> jsval" where
  "getProp ob k = (case map_of ob k of None \<Rightarrow> JUndefined | Some v \<Rightarrow> v)"

text \<open>\<^verbatim>\<open>v.key\<close> on any value: primitives and arrays have no such own property.\<close>

fun getField :: "jsval \<Rightarrow> string \<Rightarrow> jsval" where
  "getField (JObj kvs) k = getProp kvs k"
| "getField v k = JUndefined"

fun digitsOf :: "nat \<Rightarrow> string" where
  "digitsOf n =
     (if n < 10 then [''0123456789'' ! n]
      else digitsOf (n div 10) @ [''0123456789'' ! (n mod 10)])"

fun joinComma :: "string list \<Rightarrow> string" where
  "joinComma [] = []"
| "joinComma [s] = s"
| "joinComma (s # t # ss) = s @ '','' @ joinComma (t # ss)"

text \<open>\<^verbatim>\<open>String(v)\<close>, the conversion \<^verbatim>\<open>String.prototype.replace\<close> applies to what its
  callback returns.\<close>

fun jsToString :: "jsval \<Rightarrow> string"
  and elemToString :: "jsval \<Rightarrow> string" where
  "jsToString JUndefined = ''undefined''"
| "jsToString JNull = ''null''"
| "jsToString (JBool b) = (if b then ''true'' else ''false'')"
| "jsToString (JNum n) = (if n < 0 then ''-'' @ digitsOf (nat (- n)) else digitsOf (nat n))"
| "jsToString (JFloat s) = s"
| "jsToString (JStr s) = s"
| "jsToString (JArr xs) = joinComma (map elemToString xs)"
| "jsToString (JObj kvs) = ''[object Object]''"
| "elemToString v = (if v = JUndefined \<or> v = JNull then [] else jsToString v)"

section \<open>Template interpolation\<close>

record workflowContext =
  executionId :: string
  variables :: obj
  previousResults :: obj

text \<open>The regular expression class \<^verbatim>\<open>\w\<close>.\<close>

definition isWordChar :: "char \<Rightarrow> bool" where
  "isWordChar c =
     (c \<in> set ''ABCDEFGHIJKLMNOPQRSTUVWXYZabcdefghijklmnopqrstuvwxyz0123456789_'')"

text \<open>
  One attempt of \<^verbatim>\<open>/\{\{(\w+)\}\}/\<close> at the head of a string: two opening braces, the
  longest non-empty run of word characters, two closing braces. The result is the
  captured key and the text after the match. (A closing brace is no word character, so
  a shorter run can never succeed where the longest fails.)
\<close>

definition matchToken :: "string \<Rightarrow> (string \<times> string) option" where
  "matchToken s =
     (if take 2 s = ''{{'' then
        (let r = drop 2 s;
             key = takeWhile isWordChar r;
             rest = dropWhile isWordChar r
         in if key \<noteq> [] \<and> take 2 rest = ''}}'' then Some (key, drop 2 rest) else None)
      else None)"

lemma matchToken_shorter: "matchToken s = Some (key, rest) \<Longrightarrow> length rest < length s"
proof -
  assume a: "matchToken s = Some (key, rest)"
  then have r: "rest = drop 2 (dropWhile isWordChar (drop 2 s))" and t: "take 2 s = ''{{''"
    by (auto simp: matchToken_def Let_def split: if_splits)
  from t have "length (take 2 s) = 2" by simp
  then have two: "2 \<le> length s" by simp
  have "length (dropWhile isWordChar (drop 2 s)) \<le> length s - 2"
    using length_dropWhile_le [of isWordChar "drop 2 s"] by simp
  with r two show ?thesis by simp
qed

text \<open>
  \<^verbatim>\<open>template.replace(/\{\{(\w+)\}\}/g, callback)\<close>: scan from the left; at a match, emit
  the callback's result for (matched text, key) and continue after the match; otherwise
  copy one character and continue.
\<close>

function replaceTokens :: "(string \<Rightarrow> string \<Rightarrow> string) \<Rightarrow> string \<Rightarrow> string" where
  "replaceTokens f [] = []"
| "replaceTokens f (c # cs) =
     (case matchToken (c # cs) of
        Some (key, rest) \<Rightarrow> f (''{{'' @ key @ ''}}'') key @ replaceTokens f rest
      | None \<Rightarrow> c # replaceTokens f cs)"
  by pat_completeness auto
termination
  by (relation "measure (\<lambda>(f, s). length s)") (auto dest: matchToken_shorter)

text \<open>
  The callback of \<^verbatim>\<open>interpolateTemplate\<close>:
  \<^verbatim>\<open>(match, key) => context.variables[key] || context.previousResults[key] || match\<close>,
  with the conversion to a string that \<^verbatim>\<open>replace\<close> applies to its result.
\<close>

definition tokenReplacement :: "workflowContext \<Rightarrow> string \<Rightarrow> string \<Rightarrow> string" where
  "tokenReplacement c match key =
     jsToString (jsOr (jsOr (getProp (variables c) key) (getProp (previousResults c) key))
                      (JStr match))"

text \<open>\<^verbatim>\<open>interpolateTemplate(template: string, context)\<close> on a string, as its signature says.\<close>

definition interpolateTemplate :: "string \<Rightarrow> workflowContext \<Rightarrow> string" where
  "interpolateTemplate template c =
     (if template = [] then [] else replaceTokens (tokenReplacement c) template)"

section \<open>Nodes, edges, results and thrown values\<close>

text \<open>
  \<^verbatim>\<open>WorkflowNode\<close> and \<^verbatim>\<open>WorkflowEdge\<close> of the shared schema. The cosmetic
  \<^verbatim>\<open>position\<close> of a node is never read by the engine and is left out.
\<close>

record workflowNode =
  node_id :: string
  node_type :: string
  node_data :: obj

record workflowEdge =
  edge_id :: string
  source :: string
  target :: string
  sourceHandle :: "string option"
  targetHandle :: "string option"

text \<open>\<^verbatim>\<open>NodeExecutionResult\<close>; an absent optional field is \<^verbatim>\<open>undefined\<close>.\<close>

record nodeExecutionResult =
  success :: bool
  data :: jsval
  error :: jsval

definition okResult :: "jsval \<Rightarrow> nodeExecutionResult" where
  "okResult d = \<lparr>success = True, data = d, error = JUndefined\<rparr>"

definition failResult :: "jsval \<Rightarrow> nodeExecutionResult" where
  "failResult e = \<lparr>success = False, data = JUndefined, error = e\<rparr>"

text \<open>A thrown value: an \<^verbatim>\<open>Error\<close> with its message, or anything else.\<close>

datatype thrown = ErrorObj string | NonError

text \<open>\<^verbatim>\<open>error instanceof Error ? error.message : dflt\<close>\<close>

definition messageOr :: "thrown \<Rightarrow> string \<Rightarrow> jsval" where
  "messageOr e dflt = (case e of ErrorObj m \<Rightarrow> JStr m | NonError \<Rightarrow> JStr dflt)"

text \<open>Sequencing of code that may throw: the first throw ends the block.\<close>

definition andThen :: "thrown + 'a \<Rightarrow> ('a \<Rightarrow> thrown + 'b) \<Rightarrow> thrown + 'b" where
  "andThen m f = (case m of Inl e \<Rightarrow> Inl e | Inr x \<Rightarrow> f x)"

text \<open>\<^verbatim>\<open>try { ... } catch (error) { return {success: false, error: ...} }\<close>\<close>

definition tryCatch :: "string \<Rightarrow> thrown + nodeExecutionResult \<Rightarrow> nodeExecutionResult" where
  "tryCatch dflt m = (case m of Inl e \<Rightarrow> failResult (messageOr e dflt) | Inr r \<Rightarrow> r)"

text \<open>
  \<^verbatim>\<open>interpolateTemplate\<close> as the handlers call it, on whatever value the node's data
  holds: a falsy value gives the empty string, a string is interpolated, and any other
  value has no \<^verbatim>\<open>replace\<close> method, which throws a \<^verbatim>\<open>TypeError\<close>.
\<close>

definition interpolateAny :: "jsval \<Rightarrow> workflowContext \<Rightarrow> thrown + string" where
  "interpolateAny template c =
     (if \<not> truthy template then Inr []
      else (case template of
              JStr s \<Rightarrow> Inr (interpolateTemplate s c)
            | _ \<Rightarrow> Inl (ErrorObj ''template.replace is not a function'')))"

section \<open>Collaborators\<close>

text \<open>
  The external services the handlers call. Each takes first the number of handler
  invocations made so far in the run, which stands for the moment of the call: a
  collaborator may answer differently from one call to the next. \<open>Inl\<close> is a throw (or a
  rejected promise). \<open>runFunction\<close> stands for
  \<^verbatim>\<open>new Function('context', 'previousResults', code)(variables, previousResults)\<close>, taken
  not to write to its arguments.
\<close>

record services =
  openaiChat :: "nat \<Rightarrow> jsval \<Rightarrow> thrown + string"
  generateResponse :: "nat \<Rightarrow> jsval \<Rightarrow> jsval \<Rightarrow> string \<Rightarrow> obj \<Rightarrow> thrown + string"
  runFunction :: "nat \<Rightarrow> string \<Rightarrow> obj \<Rightarrow> obj \<Rightarrow> thrown + jsval"
  processPDF :: "nat \<Rightarrow> string \<Rightarrow> jsval \<Rightarrow> thrown + obj"
  processCSV :: "nat \<Rightarrow> string \<Rightarrow> jsval \<Rightarrow> thrown + obj"
  scrapeURL :: "nat \<Rightarrow> string \<Rightarrow> jsval \<Rightarrow> thrown + obj"
  createPineconeStore :: "nat \<Rightarrow> string \<Rightarrow> string \<Rightarrow> string \<Rightarrow> thrown + obj"
  createWeaviateStore :: "nat \<Rightarrow> string \<Rightarrow> string \<Rightarrow> thrown + obj"
  chatWithOpenAI :: "nat \<Rightarrow> jsval list \<Rightarrow> jsval \<Rightarrow> jsval \<Rightarrow> jsval \<Rightarrow> thrown + obj"
  chatWithAnthropic :: "nat \<Rightarrow> jsval list \<Rightarrow> jsval \<Rightarrow> jsval \<Rightarrow> thrown + obj"
  createConversationMemory :: "nat \<Rightarrow> string \<Rightarrow> jsval \<Rightarrow> thrown + obj"
  webSearch :: "nat \<Rightarrow> string \<Rightarrow> jsval \<Rightarrow> jsval \<Rightarrow> thrown + obj"
  executeCode :: "nat \<Rightarrow> string \<Rightarrow> jsval \<Rightarrow> jsval \<Rightarrow> thrown + obj"
  isoNow :: "nat \<Rightarrow> string"
  randomUUID :: string
  newDate :: "nat \<Rightarrow> nat"

section \<open>Built-in handlers\<close>

definition executeManualTrigger :: "workflowNode \<Rightarrow> workflowContext \<Rightarrow> nodeExecutionResult" where
  "executeManualTrigger node c = \<lparr>success = True, data = JObj (variables c), error = JUndefined\<rparr>"

definition executeWebhook :: "workflowNode \<Rightarrow> workflowContext \<Rightarrow> nodeExecutionResult" where
  "executeWebhook node c = \<lparr>success = True, data = JObj (variables c), error = JUndefined\<rparr>"

definition executeSchedule ::
  "services \<Rightarrow> nat \<Rightarrow> workflowNode \<Rightarrow> workflowContext \<Rightarrow> nodeExecutionResult" where
  "executeSchedule sv t node c =
     \<lparr>success = True, data = JObj [(''timestamp'', JStr (isoNow sv t))], error = JUndefined\<rparr>"

definition executeOpenAI ::
  "services \<Rightarrow> nat \<Rightarrow> workflowNode \<Rightarrow> workflowContext \<Rightarrow> nodeExecutionResult" where
  "executeOpenAI sv t node c =
     tryCatch ''OpenAI execution failed''
       (let systemPrompt = getProp (node_data node) ''systemPrompt'';
            model = getProp (node_data node) ''model'';
            temperature = getProp (node_data node) ''temperature'';
            maxTokens = getProp (node_data node) ''maxTokens'';
            userMessage = getProp (node_data node) ''userMessage''
        in andThen
             (if truthy userMessage then
                andThen (interpolateAny userMessage c)
                  (\<lambda>content. Inr [JObj [(''role'', JStr ''user''), (''content'', JStr content)]])
              else Inr [])
             (\<lambda>messages.
                andThen (interpolateAny (jsOr systemPrompt (JStr [])) c)
                  (\<lambda>sp.
                     andThen
                       (openaiChat sv t
                          (JObj [(''model'', jsOr model (JStr ''gpt-4o'')),
                                 (''temperature'', jsOr temperature (JFloat ''0.7'')),
                                 (''maxTokens'', jsOr maxTokens (JNum 150)),
                                 (''systemPrompt'', JStr sp),
                                 (''messages'', JArr messages)]))
                       (\<lambda>response.
                          Inr (okResult (JObj [(''response'', JStr response),
                                               (''rawOutput'', JStr response)]))))))"

text \<open>A destructuring default, \<^verbatim>\<open>{ x = dflt } = o\<close>: it applies to \<^verbatim>\<open>undefined\<close> only.\<close>

definition orDefault :: "jsval \<Rightarrow> jsval \<Rightarrow> jsval" where
  "orDefault v dflt = (if v = JUndefined then dflt else v)"

definition executeAgent ::
  "services \<Rightarrow> nat \<Rightarrow> workflowNode \<Rightarrow> workflowContext \<Rightarrow> nodeExecutionResult" where
  "executeAgent sv t node c =
     tryCatch ''Agent execution failed''
       (let prompt = getProp (node_data node) ''prompt'';
            provider = orDefault (getProp (node_data node) ''provider'') (JStr ''openai'');
            model = orDefault (getProp (node_data node) ''model'') (JStr ''gpt-4o'')
        in andThen (interpolateAny (jsOr prompt (JStr [])) c)
             (\<lambda>interpolatedPrompt.
                andThen (generateResponse sv t provider model interpolatedPrompt (previousResults c))
                  (\<lambda>response.
                     Inr (okResult (JObj [(''response'', JStr response),
                                          (''context'', JObj (previousResults c)),
                                          (''provider'', provider),
                                          (''model'', model)])))))"

definition executeVectorSearch :: "workflowNode \<Rightarrow> workflowContext \<Rightarrow> nodeExecutionResult" where
  "executeVectorSearch node c =
     okResult (JObj [(''results'', JArr []), (''query'', getProp (node_data node) ''query'')])"

definition executeCode_node ::
  "services \<Rightarrow> nat \<Rightarrow> workflowNode \<Rightarrow> workflowContext \<Rightarrow> nodeExecutionResult" where
  "executeCode_node sv t node c =
     tryCatch ''Code execution failed''
       (let code = getProp (node_data node) ''code'';
            language = getProp (node_data node) ''language''
        in if language = JStr ''javascript'' then
             andThen (runFunction sv t (jsToString code) (variables c) (previousResults c))
               (\<lambda>result. Inr (okResult result))
           else Inr (failResult (JStr (''Unsupported language: '' @ jsToString language))))"

definition executeCondition ::
  "services \<Rightarrow> nat \<Rightarrow> workflowNode \<Rightarrow> workflowContext \<Rightarrow> nodeExecutionResult" where
  "executeCondition sv t node c =
     tryCatch ''Condition evaluation failed''
       (let condition = getProp (node_data node) ''condition''
        in andThen
             (runFunction sv t (''return '' @ jsToString condition) (variables c)
                (previousResults c))
             (\<lambda>result.
                Inr (okResult (JObj [(''condition'', result),
                                     (''originalCondition'', condition)]))))"

definition executeMerge :: "workflowNode \<Rightarrow> workflowContext \<Rightarrow> nodeExecutionResult" where
  "executeMerge node c = okResult (JObj [(''merged'', JObj (previousResults c))])"

text \<open>The two output handlers have no \<^verbatim>\<open>try\<close> of their own: a throw leaves them.\<close>

definition executeEmail :: "workflowNode \<Rightarrow> workflowContext \<Rightarrow> thrown + nodeExecutionResult" where
  "executeEmail node c =
     (let to = getProp (node_data node) ''to'';
          subject = getProp (node_data node) ''subject'';
          body = getProp (node_data node) ''body''
      in andThen (interpolateAny (jsOr to (JStr [])) c)
           (\<lambda>_. andThen (interpolateAny (jsOr subject (JStr [])) c)
              (\<lambda>_. andThen (interpolateAny (jsOr body (JStr [])) c)
                 (\<lambda>_. Inr (okResult (JObj [(''sent'', JBool True), (''to'', to),
                                            (''subject'', subject)]))))))"

definition executeWebhookResponse ::
  "workflowNode \<Rightarrow> workflowContext \<Rightarrow> thrown + nodeExecutionResult" where
  "executeWebhookResponse node c =
     (let responseData = getProp (node_data node) ''responseData''
      in andThen (interpolateAny (jsOr responseData (JStr ''{}'')) c)
           (\<lambda>s. Inr (okResult (JStr s))))"

section \<open>LangChain handlers\<close>

text \<open>
  Each takes \<^verbatim>\<open>config = node.data.config || {}\<close>, interpolates its text fields, calls one
  collaborator and shapes the answer. The collaborator's answer is an object with a
  \<^verbatim>\<open>success\<close> field, as its declared type says.
\<close>

definition executePDFLoader ::
  "services \<Rightarrow> nat \<Rightarrow> workflowNode \<Rightarrow> workflowContext \<Rightarrow> jsval \<Rightarrow> nodeExecutionResult" where
  "executePDFLoader sv t node c config =
     tryCatch ''PDF loader execution failed''
       (andThen (interpolateAny (jsOr (getField config ''filePath'') (JStr [])) c)
          (\<lambda>filePath.
             andThen (processPDF sv t filePath (getField config ''pages''))
               (\<lambda>result.
                  if truthy (getProp result ''success'') then
                    Inr (okResult (JObj [(''content'', getProp result ''content''),
                                         (''metadata'', getProp result ''metadata''),
                                         (''nodeType'', JStr ''pdf-loader'')]))
                  else Inr (failResult (getProp result ''error'')))))"

definition executeCSVLoader ::
  "services \<Rightarrow> nat \<Rightarrow> workflowNode \<Rightarrow> workflowContext \<Rightarrow> jsval \<Rightarrow> nodeExecutionResult" where
  "executeCSVLoader sv t node c config =
     tryCatch ''CSV loader execution failed''
       (andThen (interpolateAny (jsOr (getField config ''filePath'') (JStr [])) c)
          (\<lambda>filePath.
             andThen (processCSV sv t filePath (jsOr (getField config ''delimiter'') (JStr '','')))
               (\<lambda>result.
                  if truthy (getProp result ''success'') then
                    Inr (okResult (JObj [(''content'', getProp result ''content''),
                                         (''metadata'', getProp result ''metadata''),
                                         (''nodeType'', JStr ''csv-loader'')]))
                  else Inr (failResult (getProp result ''error'')))))"

definition executeURLScraper ::
  "services \<Rightarrow> nat \<Rightarrow> workflowNode \<Rightarrow> workflowContext \<Rightarrow> jsval \<Rightarrow> nodeExecutionResult" where
  "executeURLScraper sv t node c config =
     tryCatch ''URL scraper execution failed''
       (andThen (interpolateAny (jsOr (getField config ''url'') (JStr [])) c)
          (\<lambda>url.
             andThen (scrapeURL sv t url (getField config ''selector''))
               (\<lambda>result.
                  if truthy (getProp result ''success'') then
                    Inr (okResult (JObj [(''content'', getProp result ''content''),
                                         (''metadata'', getProp result ''metadata''),
                                         (''nodeType'', JStr ''url-scraper'')]))
                  else Inr (failResult (getProp result ''error'')))))"

definition executePineconeStore ::
  "services \<Rightarrow> nat \<Rightarrow> workflowNode \<Rightarrow> workflowContext \<Rightarrow> jsval \<Rightarrow> nodeExecutionResult" where
  "executePineconeStore sv t node c config =
     tryCatch ''Pinecone store execution failed''
       (andThen (interpolateAny (jsOr (getField config ''apiKey'') (JStr [])) c)
          (\<lambda>apiKey.
             andThen (interpolateAny (jsOr (getField config ''environment'') (JStr [])) c)
               (\<lambda>environment.
                  andThen (interpolateAny (jsOr (getField config ''indexName'') (JStr [])) c)
                    (\<lambda>indexName.
                       andThen (createPineconeStore sv t apiKey environment indexName)
                         (\<lambda>result.
                            if truthy (getProp result ''success'') then
                              Inr (okResult (JObj [(''vectorStoreId'', getProp result ''vectorId''),
                                                   (''nodeType'', JStr ''pinecone-store'')]))
                            else Inr (failResult (getProp result ''error'')))))))"

definition executeWeaviateStore ::
  "services \<Rightarrow> nat \<Rightarrow> workflowNode \<Rightarrow> workflowContext \<Rightarrow> jsval \<Rightarrow> nodeExecutionResult" where
  "executeWeaviateStore sv t node c config =
     tryCatch ''Weaviate store execution failed''
       (andThen (interpolateAny (jsOr (getField config ''url'') (JStr [])) c)
          (\<lambda>url.
             andThen (interpolateAny (jsOr (getField config ''className'') (JStr [])) c)
               (\<lambda>className.
                  andThen (createWeaviateStore sv t url className)
                    (\<lambda>result.
                       if truthy (getProp result ''success'') then
                         Inr (okResult (JObj [(''vectorStoreId'', getProp result ''vectorId''),
                                              (''nodeType'', JStr ''weaviate-store'')]))
                       else Inr (failResult (getProp result ''error''))))))"

text \<open>
  \<^verbatim>\<open>{...msg}\<close>: the own enumerable properties of a value (the entries of an object, the
  indexed elements of an array or a string, nothing for the other values).
\<close>

fun spreadOf :: "jsval \<Rightarrow> obj" where
  "spreadOf (JObj kvs) = kvs"
| "spreadOf (JArr xs) = zip (map digitsOf [0..<length xs]) xs"
| "spreadOf (JStr s) = zip (map digitsOf [0..<length s]) (map (\<lambda>ch. JStr [ch]) s)"
| "spreadOf v = []"

text \<open>
  \<^verbatim>\<open>(msg) => ({...msg, content: this.interpolateTemplate(msg.content || '', context)})\<close>;
  reading \<^verbatim>\<open>content\<close> of \<^verbatim>\<open>null\<close> or \<^verbatim>\<open>undefined\<close> throws.
\<close>

definition interpolateMessage :: "workflowContext \<Rightarrow> jsval \<Rightarrow> thrown + jsval" where
  "interpolateMessage c msg =
     (if msg = JUndefined then
        Inl (ErrorObj ''Cannot read properties of undefined (reading 'content')'')
      else if msg = JNull then
        Inl (ErrorObj ''Cannot read properties of null (reading 'content')'')
      else andThen (interpolateAny (jsOr (getField msg ''content'') (JStr [])) c)
             (\<lambda>content. Inr (JObj (AList.update ''content'' (JStr content) (spreadOf msg)))))"

fun mapThrowing :: "('a \<Rightarrow> thrown + 'b) \<Rightarrow> 'a list \<Rightarrow> thrown + 'b list" where
  "mapThrowing f [] = Inr []"
| "mapThrowing f (x # xs) =
     (case f x of
        Inl e \<Rightarrow> Inl e
      | Inr y \<Rightarrow> (case mapThrowing f xs of Inl e \<Rightarrow> Inl e | Inr ys \<Rightarrow> Inr (y # ys)))"

text \<open>\<^verbatim>\<open>messages.map(...)\<close>, where \<^verbatim>\<open>messages = config.messages || []\<close> may be no array.\<close>

definition interpolateMessages :: "workflowContext \<Rightarrow> jsval \<Rightarrow> thrown + jsval list" where
  "interpolateMessages c messages =
     (case messages of
        JArr ms \<Rightarrow> mapThrowing (interpolateMessage c) ms
      | _ \<Rightarrow> Inl (ErrorObj ''messages.map is not a function''))"

definition executeOpenAIChat ::
  "services \<Rightarrow> nat \<Rightarrow> workflowNode \<Rightarrow> workflowContext \<Rightarrow> jsval \<Rightarrow> nodeExecutionResult" where
  "executeOpenAIChat sv t node c config =
     tryCatch ''OpenAI chat execution failed''
       (andThen (interpolateMessages c (jsOr (getField config ''messages'') (JArr [])))
          (\<lambda>interpolatedMessages.
             andThen
               (chatWithOpenAI sv t interpolatedMessages
                  (jsOr (getField config ''model'') (JStr ''gpt-4o''))
                  (jsOr (getField config ''temperature'') (JFloat ''0.7''))
                  (jsOr (getField config ''maxTokens'') (JNum 1000)))
               (\<lambda>result.
                  if truthy (getProp result ''success'') then
                    Inr (okResult (JObj [(''response'', getProp result ''response''),
                                         (''nodeType'', JStr ''openai-chat'')]))
                  else Inr (failResult (getProp result ''error'')))))"

definition executeAnthropicChat ::
  "services \<Rightarrow> nat \<Rightarrow> workflowNode \<Rightarrow> workflowContext \<Rightarrow> jsval \<Rightarrow> nodeExecutionResult" where
  "executeAnthropicChat sv t node c config =
     tryCatch ''Anthropic chat execution failed''
       (andThen (interpolateMessages c (jsOr (getField config ''messages'') (JArr [])))
          (\<lambda>interpolatedMessages.
             andThen
               (chatWithAnthropic sv t interpolatedMessages
                  (jsOr (getField config ''model'') (JStr ''claude-3-5-sonnet-20241022''))
                  (jsOr (getField config ''temperature'') (JFloat ''0.7'')))
               (\<lambda>result.
                  if truthy (getProp result ''success'') then
                    Inr (okResult (JObj [(''response'', getProp result ''response''),
                                         (''nodeType'', JStr ''anthropic-chat'')]))
                  else Inr (failResult (getProp result ''error'')))))"

definition executeConversationMemory ::
  "services \<Rightarrow> nat \<Rightarrow> workflowNode \<Rightarrow> workflowContext \<Rightarrow> jsval \<Rightarrow> nodeExecutionResult" where
  "executeConversationMemory sv t node c config =
     tryCatch ''Conversation memory execution failed''
       (andThen (interpolateAny (jsOr (getField config ''memoryKey'') (JStr ''conversation'')) c)
          (\<lambda>memoryKey.
             andThen
               (createConversationMemory sv t memoryKey
                  (jsOr (getField config ''maxTokens'') (JNum 2000)))
               (\<lambda>result.
                  if truthy (getProp result ''success'') then
                    Inr (okResult (JObj [(''memoryId'', getProp result ''memoryId''),
                                         (''nodeType'', JStr ''conversation-memory'')]))
                  else Inr (failResult (getProp result ''error'')))))"

definition executeWebSearch ::
  "services \<Rightarrow> nat \<Rightarrow> workflowNode \<Rightarrow> workflowContext \<Rightarrow> jsval \<Rightarrow> nodeExecutionResult" where
  "executeWebSearch sv t node c config =
     tryCatch ''Web search execution failed''
       (andThen (interpolateAny (jsOr (getField config ''query'') (JStr [])) c)
          (\<lambda>query.
             let searchEngine = jsOr (getField config ''searchEngine'') (JStr ''google'')
             in andThen
                  (webSearch sv t query searchEngine
                     (jsOr (getField config ''maxResults'') (JNum 5)))
                  (\<lambda>result.
                     if truthy (getProp result ''success'') then
                       Inr (okResult (JObj [(''results'', getProp result ''results''),
                                            (''query'', JStr query),
                                            (''searchEngine'', searchEngine),
                                            (''nodeType'', JStr ''web-search'')]))
                     else Inr (failResult (getProp result ''error'')))))"

definition executeCodeExecutor ::
  "services \<Rightarrow> nat \<Rightarrow> workflowNode \<Rightarrow> workflowContext \<Rightarrow> jsval \<Rightarrow> nodeExecutionResult" where
  "executeCodeExecutor sv t node c config =
     tryCatch ''Code executor execution failed''
       (andThen (interpolateAny (jsOr (getField config ''code'') (JStr [])) c)
          (\<lambda>code.
             let language = jsOr (getField config ''language'') (JStr ''python'')
             in andThen
                  (executeCode sv t code language (jsOr (getField config ''timeout'') (JNum 30)))
                  (\<lambda>result.
                     if truthy (getProp result ''success'') then
                       Inr (okResult (JObj [(''result'', getProp result ''result''),
                                            (''language'', language),
                                            (''nodeType'', JStr ''code-executor'')]))
                     else Inr (failResult (getProp result ''error'')))))"

section \<open>Dispatch\<close>

definition langChainNodeTypes :: "string list" where
  "langChainNodeTypes =
     [''pdf-loader'', ''csv-loader'', ''url-scraper'', ''pinecone-store'', ''weaviate-store'',
      ''openai-chat'', ''anthropic-chat'', ''conversation-memory'', ''web-search'',
      ''code-executor'']"

text \<open>\<^verbatim>\<open>langChainNodeTypes.includes(node.data.type)\<close>\<close>

definition isLangChainNode :: "workflowNode \<Rightarrow> bool" where
  "isLangChainNode node =
     (case getProp (node_data node) ''type'' of
        JStr s \<Rightarrow> s \<in> set langChainNodeTypes
      | _ \<Rightarrow> False)"

text \<open>
  \<^verbatim>\<open>executeLangChainNode\<close>: the switch on \<^verbatim>\<open>node.data.type\<close>. Every handler catches its
  own throws, so nothing reaches the \<^verbatim>\<open>catch\<close> that surrounds the switch.
\<close>

definition executeLangChainNode ::
  "services \<Rightarrow> nat \<Rightarrow> workflowNode \<Rightarrow> workflowContext \<Rightarrow> nodeExecutionResult" where
  "executeLangChainNode sv t node c =
     (let nodeType = getProp (node_data node) ''type'';
          config = jsOr (getProp (node_data node) ''config'') (JObj [])
      in if nodeType = JStr ''pdf-loader'' then executePDFLoader sv t node c config
         else if nodeType = JStr ''csv-loader'' then executeCSVLoader sv t node c config
         else if nodeType = JStr ''url-scraper'' then executeURLScraper sv t node c config
         else if nodeType = JStr ''pinecone-store'' then executePineconeStore sv t node c config
         else if nodeType = JStr ''weaviate-store'' then executeWeaviateStore sv t node c config
         else if nodeType = JStr ''openai-chat'' then executeOpenAIChat sv t node c config
         else if nodeType = JStr ''anthropic-chat'' then executeAnthropicChat sv t node c config
         else if nodeType = JStr ''conversation-memory'' then
           executeConversationMemory sv t node c config
         else if nodeType = JStr ''web-search'' then executeWebSearch sv t node c config
         else if nodeType = JStr ''code-executor'' then executeCodeExecutor sv t node c config
         else failResult (JStr (''Unsupported LangChain node type: '' @ jsToString nodeType)))"

text \<open>The node types of the schema's \<^verbatim>\<open>NodeTypeEnum\<close>, the cases of the switch.\<close>

definition builtinNodeTypes :: "string list" where
  "builtinNodeTypes =
     [''webhook'', ''manual'', ''schedule'', ''openai'', ''agent'', ''vector'', ''code'',
      ''condition'', ''merge'', ''email'', ''webhook-response'']"

text \<open>\<^verbatim>\<open>executeNode(node, context)\<close>; \<open>Inl\<close> when a handler throws.\<close>

definition executeNode ::
  "services \<Rightarrow> nat \<Rightarrow> workflowNode \<Rightarrow> workflowContext \<Rightarrow> thrown + nodeExecutionResult" where
  "executeNode sv t node c =
     (if isLangChainNode node then Inr (executeLangChainNode sv t node c)
      else if node_type node = ''manual'' then Inr (executeManualTrigger node c)
      else if node_type node = ''webhook'' then Inr (executeWebhook node c)
      else if node_type node = ''schedule'' then Inr (executeSchedule sv t node c)
      else if node_type node = ''openai'' then Inr (executeOpenAI sv t node c)
      else if node_type node = ''agent'' then Inr (executeAgent sv t node c)
      else if node_type node = ''vector'' then Inr (executeVectorSearch node c)
      else if node_type node = ''code'' then Inr (executeCode_node sv t node c)
      else if node_type node = ''condition'' then Inr (executeCondition sv t node c)
      else if node_type node = ''merge'' then Inr (executeMerge node c)
      else if node_type node = ''email'' then executeEmail node c
      else if node_type node = ''webhook-response'' then executeWebhookResponse node c
      else Inr \<lparr>success = False, data = JUndefined,
                error = JStr (''Unknown node type: '' @ node_type node)\<rparr>)"

section \<open>Traversal\<close>

text \<open>
  The state a traversal works on: the shared, mutated context, and a record of every
  handler invocation in order (the node's id and the result the traversal got for it),
  kept for the statements about which handlers ran.
\<close>

record engineState =
  ctx :: workflowContext
  invoked :: "(string \<times> nodeExecutionResult) list"

text \<open>
  The loop \<^verbatim>\<open>for (const edge of nextEdges)\<close> of \<^verbatim>\<open>executeFromNode\<close>, given the recursive
  call: a target that is no node is skipped, a failed branch ends the loop with its
  result, and after the last edge the node's own result is returned. \<open>None\<close> is a
  recursive call that has not returned.
\<close>

fun forEachEdge ::
  "(workflowNode \<Rightarrow> engineState \<Rightarrow> nodeExecutionResult option \<times> engineState) \<Rightarrow>
   workflowNode list \<Rightarrow> workflowEdge list \<Rightarrow> nodeExecutionResult \<Rightarrow> engineState \<Rightarrow>
   nodeExecutionResult option \<times> engineState" where
  "forEachEdge call allNodes [] result st = (Some result, st)"
| "forEachEdge call allNodes (edge # rest) result st =
     (case find (\<lambda>n. node_id n = target edge) allNodes of
        None \<Rightarrow> forEachEdge call allNodes rest result st
      | Some nextNode \<Rightarrow>
          (case call nextNode st of
             (None, st') \<Rightarrow> (None, st')
           | (Some nextResult, st') \<Rightarrow>
               if \<not> success nextResult then (Some nextResult, st')
               else forEachEdge call allNodes rest result st'))"

text \<open>
  The call of the handler inside the \<^verbatim>\<open>try\<close> of \<^verbatim>\<open>executeFromNode\<close>: a throw is caught
  there and becomes a failure result carrying the message.
\<close>

definition invokeHandler :: "services \<Rightarrow> workflowNode \<Rightarrow> engineState \<Rightarrow> nodeExecutionResult" where
  "invokeHandler sv node st =
     (case executeNode sv (length (invoked st)) node (ctx st) of
        Inl e \<Rightarrow> \<lparr>success = False, data = JUndefined, error = messageOr e ''Unknown error''\<rparr>
      | Inr r \<Rightarrow> r)"

text \<open>
  \<^verbatim>\<open>executeFromNode(node, allNodes, edges, context)\<close>. The recursion has no bound in the
  source (a cycle of edges is walked for ever), so the model takes the depth of
  recursion it may use: \<open>None\<close> says that the walk needs more, that is, that the call has
  not returned; the state reached is returned in both cases.
\<close>

fun executeFromNode ::
  "nat \<Rightarrow> services \<Rightarrow> workflowNode \<Rightarrow> workflowNode list \<Rightarrow> workflowEdge list \<Rightarrow>
   engineState \<Rightarrow> nodeExecutionResult option \<times> engineState" where
  "executeFromNode 0 sv node allNodes edges st = (None, st)"
| "executeFromNode (Suc fuel) sv node allNodes edges st =
     (let result = invokeHandler sv node st;
          st1 = st\<lparr>invoked := invoked st @ [(node_id node, result)]\<rparr>
      in if \<not> success result then (Some result, st1)
         else
           (let st2 = st1\<lparr>ctx := (ctx st1)\<lparr>previousResults :=
                         AList.update (node_id node) (data result) (previousResults (ctx st1))\<rparr>\<rparr>;
                nextEdges = filter (\<lambda>edge. source edge = node_id node) edges
            in if length nextEdges = 0 then (Some result, st2)
               else forEachEdge (\<lambda>nextNode s. executeFromNode fuel sv nextNode allNodes edges s)
                      allNodes nextEdges result st2))"

section \<open>Storage and the execution record\<close>

text \<open>
  \<^verbatim>\<open>WorkflowExecution\<close> and the in-memory storage \<^verbatim>\<open>MemStorage\<close>. Dates are numbers. The
  storage also keeps the list of the calls of \<^verbatim>\<open>updateWorkflowExecution\<close> it received.
\<close>

record workflowExecution =
  exec_id :: string
  workflowId :: string
  status :: string
  exec_input :: jsval
  exec_output :: jsval
  exec_error :: jsval
  executionTime :: nat
  completedAt :: "nat option"

text \<open>The fields of the \<^verbatim>\<open>Partial<WorkflowExecution>\<close> the engine passes; \<open>None\<close> is absent.\<close>

record executionUpdate =
  upd_status :: "string option"
  upd_output :: "jsval option"
  upd_error :: "jsval option"
  upd_completedAt :: "nat option"

record memStorage =
  workflowExecutions :: "(string \<times> workflowExecution) list"
  updateCalls :: "(string \<times> executionUpdate) list"

record insertWorkflowExecution =
  ins_workflowId :: string
  ins_input :: jsval

definition createWorkflowExecution ::
  "string \<Rightarrow> nat \<Rightarrow> insertWorkflowExecution \<Rightarrow> memStorage \<Rightarrow> workflowExecution \<times> memStorage" where
  "createWorkflowExecution uuid now insertExecution st =
     (let execution =
            \<lparr>exec_id = uuid, workflowId = ins_workflowId insertExecution, status = ''running'',
             exec_input = jsOr (ins_input insertExecution) (JObj []), exec_output = JNull,
             exec_error = JNull, executionTime = now, completedAt = None\<rparr>
      in (execution,
          st\<lparr>workflowExecutions := AList.update uuid execution (workflowExecutions st)\<rparr>))"

definition getWorkflowExecution :: "string \<Rightarrow> memStorage \<Rightarrow> workflowExecution option" where
  "getWorkflowExecution i st = map_of (workflowExecutions st) i"

text \<open>\<^verbatim>\<open>{...execution, ...updates}\<close>\<close>

definition applyUpdate :: "workflowExecution \<Rightarrow> executionUpdate \<Rightarrow> workflowExecution" where
  "applyUpdate execution updates =
     execution\<lparr>status := (case upd_status updates of None \<Rightarrow> status execution | Some v \<Rightarrow> v),
               exec_output :=
                 (case upd_output updates of None \<Rightarrow> exec_output execution | Some v \<Rightarrow> v),
               exec_error :=
                 (case upd_error updates of None \<Rightarrow> exec_error execution | Some v \<Rightarrow> v),
               completedAt :=
                 (case upd_completedAt updates of
                    None \<Rightarrow> completedAt execution
                  | Some v \<Rightarrow> Some v)\<rparr>"

definition updateWorkflowExecution ::
  "string \<Rightarrow> executionUpdate \<Rightarrow> memStorage \<Rightarrow> workflowExecution option \<times> memStorage" where
  "updateWorkflowExecution i updates st =
     (let logged = st\<lparr>updateCalls := updateCalls st @ [(i, updates)]\<rparr>
      in (case map_of (workflowExecutions st) i of
            None \<Rightarrow> (None, logged)
          | Some execution \<Rightarrow>
              (let updatedExecution = applyUpdate execution updates
               in (Some updatedExecution,
                   logged\<lparr>workflowExecutions :=
                            AList.update i updatedExecution (workflowExecutions st)\<rparr>))))"

section \<open>The entry point\<close>

text \<open>
  \<^verbatim>\<open>nodes.filter(node => !edges.some(edge => edge.target === node.id))\<close>: the nodes
  without an incoming edge, in the order of the node list.
\<close>

definition startNodesOf :: "workflowNode list \<Rightarrow> workflowEdge list \<Rightarrow> workflowNode list" where
  "startNodesOf nodes edges =
     filter (\<lambda>node. \<not> list_ex (\<lambda>edge. target edge = node_id node) edges) nodes"

text \<open>
  What a call of \<^verbatim>\<open>executeWorkflow\<close> leaves: whether and how it ended (\<open>None\<close>: it has
  not returned; \<open>Inl\<close>: it threw; \<open>Inr\<close>: the execution it returned), the storage, and the
  handler invocations it made.
\<close>

record runOutcome =
  ended :: "(thrown + workflowExecution) option"
  storage :: memStorage
  handlerCalls :: "(string \<times> nodeExecutionResult) list"

text \<open>
  \<^verbatim>\<open>executeWorkflow(workflowId, nodes, edges, input)\<close>; the input is a JSON object or
  absent. The storage operations themselves do not fail.
\<close>

definition executeWorkflow ::
  "nat \<Rightarrow> services \<Rightarrow> string \<Rightarrow> workflowNode list \<Rightarrow> workflowEdge list \<Rightarrow> obj option \<Rightarrow>
   memStorage \<Rightarrow> runOutcome" where
  "executeWorkflow fuel sv wfId nodes edges inp st0 =
     (let inputOrEmpty = (case inp of None \<Rightarrow> [] | Some ob \<Rightarrow> ob);
          (execution, st1) =
            createWorkflowExecution (randomUUID sv) (newDate sv 0)
              \<lparr>ins_workflowId = wfId, ins_input = JObj inputOrEmpty\<rparr> st0;
          context = \<lparr>executionId = exec_id execution, variables = inputOrEmpty,
                     previousResults = []\<rparr>;
          startNodes = startNodesOf nodes edges
      in if length startNodes = 0 then
           (let st2 = snd (updateWorkflowExecution (exec_id execution)
                             \<lparr>upd_status = Some ''failed'', upd_output = None,
                              upd_error = Some (JStr ''No start node found in workflow''),
                              upd_completedAt = Some (newDate sv 0)\<rparr> st1)
            in \<lparr>ended = Some (Inl (ErrorObj ''No start node found in workflow'')),
                storage = st2, handlerCalls = []\<rparr>)
         else
           (case executeFromNode fuel sv (startNodes ! 0) nodes edges
                   \<lparr>ctx = context, invoked = []\<rparr> of
              (None, es) \<Rightarrow> \<lparr>ended = None, storage = st1, handlerCalls = invoked es\<rparr>
            | (Some result, es) \<Rightarrow>
                (let st2 = snd (updateWorkflowExecution (exec_id execution)
                                  \<lparr>upd_status = Some ''completed'',
                                   upd_output = Some (data result), upd_error = None,
                                   upd_completedAt = Some (newDate sv (length (invoked es)))\<rparr> st1)
                 in \<lparr>ended = Some (Inr (case getWorkflowExecution (exec_id execution) st2 of
                                          Some e \<Rightarrow> e
                                        | None \<Rightarrow> execution)),
                     storage = st2, handlerCalls = invoked es\<rparr>)))"

section \<open>Vocabulary of the statements\<close>







section \<open>Example workflows\<close>

text \<open>
  Collaborators for the examples: the plain chat service throws \<^verbatim>\<open>Error("boom")\<close>, the
  LangChain chat services answer \<^verbatim>\<open>"hello back"\<close>, the loaders and stores report failure.
\<close>

definition stubServices :: services where
  "stubServices =
     \<lparr>openaiChat = (\<lambda>t options. Inl (ErrorObj ''boom'')),
      generateResponse = (\<lambda>t provider model prompt prev. Inr ''ok''),
      runFunction = (\<lambda>t code vars prev. Inr JUndefined),
      processPDF = (\<lambda>t path pages. Inr [(''success'', JBool False), (''error'', JStr ''no file'')]),
      processCSV = (\<lambda>t path delimiter. Inr [(''success'', JBool False), (''error'', JStr ''no file'')]),
      scrapeURL = (\<lambda>t url selector. Inr [(''success'', JBool False), (''error'', JStr ''offline'')]),
      createPineconeStore =
        (\<lambda>t apiKey environment indexName.
           Inr [(''success'', JBool False), (''error'', JStr ''offline'')]),
      createWeaviateStore =
        (\<lambda>t url className. Inr [(''success'', JBool False), (''error'', JStr ''offline'')]),
      chatWithOpenAI =
        (\<lambda>t messages model temperature maxTokens.
           Inr [(''success'', JBool True), (''response'', JStr ''hello back'')]),
      chatWithAnthropic =
        (\<lambda>t messages model temperature.
           Inr [(''success'', JBool True), (''response'', JStr ''hello back'')]),
      createConversationMemory =
        (\<lambda>t memoryKey maxTokens. Inr [(''success'', JBool True), (''memoryId'', JStr ''m1'')]),
      webSearch = (\<lambda>t query engine maxResults. Inr [(''success'', JBool True), (''results'', JArr [])]),
      executeCode = (\<lambda>t code language timeout. Inr [(''success'', JBool True), (''result'', JNull)]),
      isoNow = (\<lambda>t. ''2025-01-01T00:00:00.000Z''),
      randomUUID = ''exec-1'',
      newDate = (\<lambda>t. t)\<rparr>"

definition mkNode :: "string \<Rightarrow> string \<Rightarrow> obj \<Rightarrow> workflowNode" where
  "mkNode i ty d = \<lparr>node_id = i, node_type = ty, node_data = d\<rparr>"

definition mkEdge :: "string \<Rightarrow> string \<Rightarrow> string \<Rightarrow> workflowEdge" where
  "mkEdge i s t = \<lparr>edge_id = i, source = s, target = t, sourceHandle = None, targetHandle = None\<rparr>"

definition emptyStorage :: memStorage where
  "emptyStorage = \<lparr>workflowExecutions = [], updateCalls = []\<rparr>"


text \<open>The chain A \<rightarrow> B \<rightarrow> C, where B calls the chat service that throws "boom".\<close>

definition chainNodes :: "workflowNode list" where
  "chainNodes = [mkNode ''A'' ''manual'' [], mkNode ''B'' ''openai'' [], mkNode ''C'' ''manual'' []]"

definition chainEdges :: "workflowEdge list" where
  "chainEdges = [mkEdge ''e1'' ''A'' ''B'', mkEdge ''e2'' ''B'' ''C'']"









text \<open>Two nodes that point at each other: no node is without an incoming edge.\<close>

definition loopNodes :: "workflowNode list" where
  "loopNodes = [mkNode ''P'' ''manual'' [], mkNode ''Q'' ''manual'' []]"

definition loopEdges :: "workflowEdge list" where
  "loopEdges = [mkEdge ''e1'' ''P'' ''Q'', mkEdge ''e2'' ''Q'' ''P'']"

section \<open>Interpolation\<close>

lemma notword_brace [simp]: "\<not> isWordChar CHR ''{''" "\<not> isWordChar CHR ''}''"
  by (simp_all add: isWordChar_def)












section \<open>Traversal: invocations and recorded results\<close>














section \<open>Dispatch and the runs of the examples\<close>

text \<open>
  C1 on the code: in the chain A \<rightarrow> B \<rightarrow> C where B's handler fails with "boom", the
  traversal returns B's failure result without throwing, \<^verbatim>\<open>executeWorkflow\<close> does not look
  at its \<^verbatim>\<open>success\<close> field, and the persisted record ends with status "completed", no
  error and the output \<^verbatim>\<open>undefined\<close>; the call returns and does not throw.
\<close>

theorem chain_failure_recorded_completed:
  "handlerCalls (executeWorkflow 3 stubServices ''wf'' chainNodes chainEdges
                  (Some [(''message'', JStr ''hi'')]) emptyStorage)
     = [(''A'', \<lparr>success = True, data = JObj [(''message'', JStr ''hi'')], error = JUndefined\<rparr>),
        (''B'', \<lparr>success = False, data = JUndefined, error = JStr ''boom''\<rparr>)]
   \<and> map (\<lambda>kv. (fst kv, status (snd kv), exec_error (snd kv), exec_output (snd kv)))
         (workflowExecutions (storage (executeWorkflow 3 stubServices ''wf'' chainNodes chainEdges
                  (Some [(''message'', JStr ''hi'')]) emptyStorage)))
     = [(''exec-1'', ''completed'', JNull, JUndefined)]
   \<and> map_option isl (ended (executeWorkflow 3 stubServices ''wf'' chainNodes chainEdges
                  (Some [(''message'', JStr ''hi'')]) emptyStorage)) = Some False"
  by code_simp



text \<open>
  C8 fails as stated for the schedule trigger: its data is the timestamp alone, and a
  variable \<^verbatim>\<open>x\<close> of the context is not in it (the manual trigger passes it through).
\<close>

theorem schedule_drops_variables:
  "data (executeSchedule stubServices 0 (mkNode ''S'' ''schedule'' [])
           \<lparr>executionId = ''e'', variables = [(''x'', JNum 1)], previousResults = []\<rparr>)
     = JObj [(''timestamp'', JStr ''2025-01-01T00:00:00.000Z'')]
   \<and> getField (data (executeSchedule stubServices 0 (mkNode ''S'' ''schedule'' [])
           \<lparr>executionId = ''e'', variables = [(''x'', JNum 1)], previousResults = []\<rparr>)) ''x''
     = JUndefined
   \<and> getField (data (executeManualTrigger (mkNode ''S'' ''manual'' [])
           \<lparr>executionId = ''e'', variables = [(''x'', JNum 1)], previousResults = []\<rparr>)) ''x''
     = JNum 1"
  by code_simp

text \<open>
  C8, amended: the manual and webhook trigger handlers return success with
  \<^verbatim>\<open>context.variables\<close> unchanged as data; the schedule trigger handler returns success
  with data holding only the timestamp of the call. This is also what \<^verbatim>\<open>executeNode\<close>
  returns for a node of these types that is no LangChain node.
\<close>

theorem trigger_handlers_data:
  "executeManualTrigger node c = \<lparr>success = True, data = JObj (variables c), error = JUndefined\<rparr>
   \<and> executeWebhook node c = \<lparr>success = True, data = JObj (variables c), error = JUndefined\<rparr>
   \<and> executeSchedule sv t node c =
       \<lparr>success = True, data = JObj [(''timestamp'', JStr (isoNow sv t))], error = JUndefined\<rparr>
   \<and> (\<not> isLangChainNode node \<longrightarrow>
        (node_type node = ''manual'' \<or> node_type node = ''webhook'' \<longrightarrow>
           executeNode sv t node c =
             Inr \<lparr>success = True, data = JObj (variables c), error = JUndefined\<rparr>) \<and>
        (node_type node = ''schedule'' \<longrightarrow>
           executeNode sv t node c =
             Inr \<lparr>success = True, data = JObj [(''timestamp'', JStr (isoNow sv t))],
                  error = JUndefined\<rparr>))"
  by (simp add: executeManualTrigger_def executeWebhook_def executeSchedule_def executeNode_def)

theorem trigger_handlers_data_witness:
  "executeNode stubServices 0 (mkNode ''w'' ''webhook'' [(''path'', JStr ''/hook'')])
     \<lparr>executionId = ''e'', variables = [(''x'', JNum 1)], previousResults = []\<rparr>
     = Inr \<lparr>success = True, data = JObj [(''x'', JNum 1)], error = JUndefined\<rparr>
   \<and> executeNode stubServices 5 (mkNode ''s'' ''schedule'' [])
     \<lparr>executionId = ''e'', variables = [(''x'', JNum 1)], previousResults = []\<rparr>
     = Inr \<lparr>success = True, data = JObj [(''timestamp'', JStr ''2025-01-01T00:00:00.000Z'')],
            error = JUndefined\<rparr>"
proof -
  let ?c = "\<lparr>executionId = ''e'', variables = [(''x'', JNum 1)], previousResults = []\<rparr>"
  let ?w = "mkNode ''w'' ''webhook'' [(''path'', JStr ''/hook'')]"
  let ?s = "mkNode ''s'' ''schedule'' []"
  have lw: "\<not> isLangChainNode ?w" and ls: "\<not> isLangChainNode ?s" by code_simp+
  have tw: "node_type ?w = ''webhook''" and ts: "node_type ?s = ''schedule''"
    by (simp_all add: mkNode_def)
  have i: "isoNow stubServices 5 = ''2025-01-01T00:00:00.000Z''" by (simp add: stubServices_def)
  from trigger_handlers_data [of ?w ?c stubServices 0] lw tw
       trigger_handlers_data [of ?s ?c stubServices 5] ls ts i
  show ?thesis by simp
qed

text \<open>
  C9: for a node whose type is none of the built-in types and whose \<^verbatim>\<open>data.type\<close> is none
  of the LangChain types, \<^verbatim>\<open>executeNode\<close> returns (it does not throw) the failure
  \<^verbatim>\<open>"Unknown node type: <type>"\<close>, and the traversal from such a node returns that
  failure after this single invocation, leaving the context as it was.
\<close>

theorem executeNode_unknown_type:
  assumes "node_type node \<notin> set builtinNodeTypes" and "\<not> isLangChainNode node"
  shows "executeNode sv t node c =
           Inr \<lparr>success = False, data = JUndefined,
                error = JStr (''Unknown node type: '' @ node_type node)\<rparr>
       \<and> executeFromNode (Suc fuel) sv node allNodes edges st =
           (Some \<lparr>success = False, data = JUndefined,
                  error = JStr (''Unknown node type: '' @ node_type node)\<rparr>,
            st\<lparr>invoked := invoked st @
                  [(node_id node, \<lparr>success = False, data = JUndefined,
                       error = JStr (''Unknown node type: '' @ node_type node)\<rparr>)]\<rparr>)"
proof -
  from assms have "executeNode sv t node c =
           Inr \<lparr>success = False, data = JUndefined,
                error = JStr (''Unknown node type: '' @ node_type node)\<rparr>" for t c
    by (simp add: executeNode_def builtinNodeTypes_def)
  then show ?thesis by (simp add: invokeHandler_def Let_def)
qed

theorem executeNode_unknown_type_witness:
  "executeNode stubServices 0 (mkNode ''x'' ''teleport'' [(''type'', JStr ''teleport'')])
     \<lparr>executionId = ''e'', variables = [], previousResults = []\<rparr>
   = Inr \<lparr>success = False, data = JUndefined, error = JStr ''Unknown node type: teleport''\<rparr>"
proof -
  let ?n = "mkNode ''x'' ''teleport'' [(''type'', JStr ''teleport'')]"
  have a: "node_type ?n \<notin> set builtinNodeTypes" by code_simp
  have b: "\<not> isLangChainNode ?n" by code_simp
  have c: "node_type ?n = ''teleport''" by (simp add: mkNode_def)
  from executeNode_unknown_type [OF a b, of stubServices 0] c show ?thesis by simp
qed

section \<open>The execution record\<close>

lemma startNodesOf_empty:
  "(\<forall>n\<in>set nodes. \<exists>e\<in>set edges. target e = node_id n) \<Longrightarrow> startNodesOf nodes edges = []"
  by (auto simp: startNodesOf_def filter_empty_conv list_ex_iff)

lemma created_record:
  "map_of (workflowExecutions (snd (createWorkflowExecution u now ins st))) u
     = Some (fst (createWorkflowExecution u now ins st))"
  "status (fst (createWorkflowExecution u now ins st)) = ''running''"
  "exec_id (fst (createWorkflowExecution u now ins st)) = u"
  "updateCalls (snd (createWorkflowExecution u now ins st)) = updateCalls st"
  by (simp_all add: createWorkflowExecution_def Let_def update_conv')

lemma updated_record:
  assumes "map_of (workflowExecutions st) u = Some ex"
  shows "map_of (workflowExecutions (snd (updateWorkflowExecution u upd st))) u
           = Some (applyUpdate ex upd)"
    and "updateCalls (snd (updateWorkflowExecution u upd st)) = updateCalls st @ [(u, upd)]"
  using assms by (simp_all add: updateWorkflowExecution_def Let_def update_conv')

text \<open>
  C7: when every node has an incoming edge, \<^verbatim>\<open>executeWorkflow\<close> throws
  "No start node found in workflow", the record it created is left with status "failed"
  and that message as its error, and no handler was invoked.
\<close>

theorem executeWorkflow_no_start_node:
  assumes "\<forall>n\<in>set nodes. \<exists>e\<in>set edges. target e = node_id n"
  shows "ended (executeWorkflow fuel sv wfId nodes edges inp st0)
           = Some (Inl (ErrorObj ''No start node found in workflow''))
       \<and> handlerCalls (executeWorkflow fuel sv wfId nodes edges inp st0) = []
       \<and> (\<exists>r. getWorkflowExecution (randomUUID sv)
                 (storage (executeWorkflow fuel sv wfId nodes edges inp st0)) = Some r
              \<and> status r = ''failed''
              \<and> exec_error r = JStr ''No start node found in workflow'')"
proof -
  let ?ins = "\<lparr>ins_workflowId = wfId, ins_input = JObj (case inp of None \<Rightarrow> [] | Some ob \<Rightarrow> ob)\<rparr>"
  let ?cr = "createWorkflowExecution (randomUUID sv) (newDate sv 0) ?ins st0"
  let ?upd = "\<lparr>upd_status = Some ''failed'', upd_output = None,
              upd_error = Some (JStr ''No start node found in workflow''),
              upd_completedAt = Some (newDate sv 0)\<rparr>"
  from assms have e: "startNodesOf nodes edges = []" by (rule startNodesOf_empty)
  have out: "executeWorkflow fuel sv wfId nodes edges inp st0 =
        \<lparr>ended = Some (Inl (ErrorObj ''No start node found in workflow'')),
         storage = snd (updateWorkflowExecution (randomUUID sv) ?upd (snd ?cr)),
         handlerCalls = []\<rparr>"
    using e by (simp add: executeWorkflow_def Let_def split_def created_record)
  have "map_of (workflowExecutions (snd (updateWorkflowExecution (randomUUID sv) ?upd (snd ?cr))))
          (randomUUID sv) = Some (applyUpdate (fst ?cr) ?upd)"
    by (rule updated_record(1)) (rule created_record(1))
  then show ?thesis
    unfolding out by (simp add: getWorkflowExecution_def applyUpdate_def)
qed

theorem executeWorkflow_no_start_node_witness:
  "ended (executeWorkflow 0 stubServices ''wf'' loopNodes loopEdges None emptyStorage)
     = Some (Inl (ErrorObj ''No start node found in workflow''))
   \<and> handlerCalls (executeWorkflow 0 stubServices ''wf'' loopNodes loopEdges None emptyStorage) = []
   \<and> (\<exists>r. getWorkflowExecution (randomUUID stubServices)
             (storage (executeWorkflow 0 stubServices ''wf'' loopNodes loopEdges None emptyStorage))
             = Some r
          \<and> status r = ''failed''
          \<and> exec_error r = JStr ''No start node found in workflow'')"
proof -
  have h: "\<forall>n\<in>set loopNodes. \<exists>e\<in>set loopEdges. target e = node_id n"
    by (simp add: loopNodes_def loopEdges_def mkNode_def mkEdge_def)
  from executeWorkflow_no_start_node [OF h] show ?thesis .
qed
















section \<open>How often a node is invoked\<close>












end
